theory Spec2Isabelle
  imports Complex_Main "HOL-Library.Multiset" "HOL-Library.Sublist" "HOL-Library.Log_Nat"
begin

section \<open>Record model (types.ts)\<close>

text \<open>
  The enums \<^verbatim>\<open>TradeType\<close> and \<^verbatim>\<open>Outcome\<close> and the interface \<^verbatim>\<open>Trade\<close>.
  An optional field that is \<^verbatim>\<open>undefined\<close> or \<^verbatim>\<open>null\<close> is \<open>None\<close>.
  A number field of a record holds the value of a finite double; the results of
  arithmetic are JavaScript numbers (\<open>jsnum\<close> below), with their rounding, their
  infinities and \<^verbatim>\<open>NaN\<close>.
  A JavaScript string is the list of its UTF-16 code units (\<open>jsString\<close>); \<open>ascii\<close>
  gives the code units of a literal written in ASCII.
  The field \<^verbatim>\<open>date\<close> is an ISO string in the source; every use of it goes through
  \<^verbatim>\<open>new Date(trade.date)\<close>, so the model keeps the time value of that \<^verbatim>\<open>Date\<close>: milliseconds
  since 1970-01-01T00:00:00Z. The form's date-only strings \<^verbatim>\<open>YYYY-MM-DD\<close> denote UTC
  midnight of that day (\<open>dateOnly\<close> below). Strings that do not parse are not modelled.
\<close>

type_synonym jsString = "nat list"

definition ascii :: "string \<Rightarrow> jsString" where
  "ascii s = map of_char s"

datatype TradeType = BUY | SELL

datatype Outcome = TP | SL | BE | NO_TRADE

record Trade =
  trade_id :: jsString
  date :: int
  type :: "TradeType option"
  outcome :: Outcome
  slSize :: "real option"
  tpSize :: "real option"
  rr :: "real option"
  rangeSize :: "real option"
  trade_notes :: jsString
  activationTime :: "jsString option"
  slSweepNotes :: "jsString option"
  images :: "(jsString \<times> jsString) list option"

section \<open>Dates (the ECMAScript Date operations the dashboard uses)\<close>

text \<open>
  Time values are integers (milliseconds since the epoch). A calendar day is its day
  number \<open>Day t\<close> (days since 1970-01-01); the text \<^verbatim>\<open>YYYY-MM-DD\<close> that
  \<^verbatim>\<open>toISOString().split('T')[0]\<close> prints for it is in one-to-one correspondence with that
  number, and \<^verbatim>\<open>new Date('YYYY-MM-DD').getTime()\<close> is the day number times \<open>msPerDay\<close>.
  The local time zone of the host is the parameter \<open>tz\<close>: its offset from UTC in
  milliseconds (positive east of Greenwich), taken as constant (no daylight saving).
\<close>

definition msPerDay :: int where
  "msPerDay = 86400000"

definition msPerHour :: int where
  "msPerHour = 3600000"

definition Day :: "int \<Rightarrow> int" where
  "Day t = t div msPerDay"

definition WeekDay :: "int \<Rightarrow> int" where
  "WeekDay t = (Day t + 4) mod 7"

definition LocalTime :: "int \<Rightarrow> int \<Rightarrow> int" where
  "LocalTime tz t = t + tz"

definition UTC :: "int \<Rightarrow> int \<Rightarrow> int" where
  "UTC tz t = t - tz"

text \<open>
  The day number of a calendar date, as ECMAScript computes it: \<open>DayFromYear\<close> is the
  day number of the first of January, and \<open>MakeDay y m d\<close> is the day number of day
  \<open>d\<close> of the month with index \<open>m\<close> (from 0 to 11) of year \<open>y\<close>. \<open>isoDate y m d\<close> is
  the day that the text \<^verbatim>\<open>YYYY-MM-DD\<close> names (months from 1).
\<close>

definition DayFromYear :: "int \<Rightarrow> int" where
  "DayFromYear y =
     365 * (y - 1970) + (y - 1969) div 4 - (y - 1901) div 100 + (y - 1601) div 400"

definition InLeapYear :: "int \<Rightarrow> bool" where
  "InLeapYear y = (y mod 4 = 0 \<and> (y mod 100 \<noteq> 0 \<or> y mod 400 = 0))"

definition daysBeforeMonth :: "int \<Rightarrow> int \<Rightarrow> int" where
  "daysBeforeMonth y m =
     sum_list (take (nat m)
       [31, if InLeapYear y then 29 else 28, 31, 30, 31, 30, 31, 31, 30, 31, 30, 31])"

definition MakeDay :: "int \<Rightarrow> int \<Rightarrow> int \<Rightarrow> int" where
  "MakeDay y m d = DayFromYear y + daysBeforeMonth y m + d - 1"

definition isoDate :: "int \<Rightarrow> int \<Rightarrow> int \<Rightarrow> int" where
  "isoDate y m d = MakeDay y (m - 1) d"

text \<open>\<^verbatim>\<open>new Date('YYYY-MM-DD')\<close> for the day with number \<open>d\<close>.\<close>

definition dateOnly :: "int \<Rightarrow> int" where
  "dateOnly d = d * msPerDay"

definition getDay :: "int \<Rightarrow> int \<Rightarrow> int" where
  "getDay tz t = WeekDay (LocalTime tz t)"

definition getUTCDay :: "int \<Rightarrow> int" where
  "getUTCDay t = WeekDay t"

text \<open>\<^verbatim>\<open>toISOString().split('T')[0]\<close>: the UTC calendar day.\<close>

definition isoDay :: "int \<Rightarrow> int" where
  "isoDay t = Day t"

text \<open>
  \<^verbatim>\<open>date.setDate(date.getDate() - n)\<close>: the local calendar day moves back \<open>n\<close> days and
  the local time of day is kept; the result is the new time value.
\<close>

definition setDateBack :: "int \<Rightarrow> int \<Rightarrow> int \<Rightarrow> int" where
  "setDateBack tz t n = UTC tz (LocalTime tz t - n * msPerDay)"

text \<open>
  \<^verbatim>\<open>new Date(date.getUTCFullYear(), date.getUTCMonth(), date.getUTCDate())\<close>: the
  constructor reads its arguments as local time, so this is local midnight of the UTC
  calendar day of \<open>t\<close> (for years from 100 on; the constructor maps the years 0 to
  99 into the twentieth century).
\<close>

definition utcDate :: "int \<Rightarrow> int \<Rightarrow> int" where
  "utcDate tz t = UTC tz (Day t * msPerDay)"

section \<open>JavaScript numbers\<close>

text \<open>
  A number is an IEEE 754 double: a finite value, kept as the real number it denotes,
  an infinity or \<^verbatim>\<open>NaN\<close>. The sign of zero is not modelled; it shows only in a division
  by zero, and every division of the program has a divisor that is not zero.
  \<open>fl x\<close> is the double nearest to the real \<open>x\<close>, the one with the even significand on a
  tie, and an infinity when that is beyond the largest double: for \<open>x\<close> between
  \<open>pow2 e\<close> and \<open>pow2 (e + 1)\<close> the doubles are the multiples of \<open>pow2 (e - 52)\<close>, and
  below \<open>pow2 (- 1022)\<close> they are the multiples of \<open>pow2 (- 1074)\<close>.
\<close>

datatype jsnum = Fin real | PosInf | NegInf | NaN

definition pow2 :: "int \<Rightarrow> real" where
  "pow2 k = (if 0 \<le> k then 2 ^ nat k else 1 / 2 ^ nat (- k))"

definition exponent :: "real \<Rightarrow> int" where
  "exponent x = (if 1 \<le> x then bitlen \<lfloor>x\<rfloor> - 1 else - bitlen (\<lceil>1 / x\<rceil> - 1))"

definition roundHalfEven :: "real \<Rightarrow> int" where
  "roundHalfEven x =
     (let n = \<lfloor>x\<rfloor>; d = x - of_int n
      in if d < 1 / 2 then n else if 1 / 2 < d then n + 1 else if even n then n else n + 1)"

definition fl :: "real \<Rightarrow> jsnum" where
  "fl x =
     (if x = 0 then Fin 0
      else
        (let e = max (exponent \<bar>x\<bar>) (- 1022);
             q = pow2 (e - 52);
             y = of_int (roundHalfEven (x / q)) * q
         in if 2 ^ 1024 \<le> \<bar>y\<bar> then (if 0 < x then PosInf else NegInf) else Fin y))"

text \<open>
  Negation, addition, multiplication and division of ECMAScript: on finite values the
  exact result rounded by \<open>fl\<close>; the cases with an infinity or \<^verbatim>\<open>NaN\<close> as in IEEE 754.
\<close>

fun js_neg :: "jsnum \<Rightarrow> jsnum" where
  "js_neg (Fin a) = Fin (- a)"
| "js_neg PosInf = NegInf"
| "js_neg NegInf = PosInf"
| "js_neg NaN = NaN"

fun js_add :: "jsnum \<Rightarrow> jsnum \<Rightarrow> jsnum" where
  "js_add (Fin a) (Fin b) = fl (a + b)"
| "js_add NaN y = NaN"
| "js_add x NaN = NaN"
| "js_add PosInf NegInf = NaN"
| "js_add NegInf PosInf = NaN"
| "js_add PosInf y = PosInf"
| "js_add NegInf y = NegInf"
| "js_add (Fin a) y = y"

fun js_mul :: "jsnum \<Rightarrow> jsnum \<Rightarrow> jsnum" where
  "js_mul (Fin a) (Fin b) = fl (a * b)"
| "js_mul NaN y = NaN"
| "js_mul x NaN = NaN"
| "js_mul (Fin a) PosInf = (if a = 0 then NaN else if 0 < a then PosInf else NegInf)"
| "js_mul (Fin a) NegInf = (if a = 0 then NaN else if 0 < a then NegInf else PosInf)"
| "js_mul PosInf (Fin b) = (if b = 0 then NaN else if 0 < b then PosInf else NegInf)"
| "js_mul NegInf (Fin b) = (if b = 0 then NaN else if 0 < b then NegInf else PosInf)"
| "js_mul PosInf PosInf = PosInf"
| "js_mul PosInf NegInf = NegInf"
| "js_mul NegInf PosInf = NegInf"
| "js_mul NegInf NegInf = PosInf"

fun js_div :: "jsnum \<Rightarrow> jsnum \<Rightarrow> jsnum" where
  "js_div (Fin a) (Fin b) =
     (if b = 0 then (if a = 0 then NaN else if 0 < a then PosInf else NegInf)
      else fl (a / b))"
| "js_div NaN y = NaN"
| "js_div x NaN = NaN"
| "js_div (Fin a) y = Fin 0"
| "js_div PosInf (Fin b) = (if 0 \<le> b then PosInf else NegInf)"
| "js_div NegInf (Fin b) = (if 0 \<le> b then NegInf else PosInf)"
| "js_div x y = NaN"

text \<open>
  The operators of the source are written as they are there: \<open>x + y\<close>, \<open>x - y\<close>, \<open>x * y\<close>
  and \<open>x / y\<close> on \<open>jsnum\<close> are the operations above; \<open>0\<close> and \<open>1\<close> are \<open>Fin 0\<close> and
  \<open>Fin 1\<close>.
\<close>

instantiation jsnum :: "{zero, one, uminus, plus, minus, times, inverse}"
begin

definition zero_jsnum :: jsnum where
  "zero_jsnum = Fin 0"

definition one_jsnum :: jsnum where
  "one_jsnum = Fin 1"

definition uminus_jsnum :: "jsnum \<Rightarrow> jsnum" where
  "uminus_jsnum x = js_neg x"

definition plus_jsnum :: "jsnum \<Rightarrow> jsnum \<Rightarrow> jsnum" where
  "plus_jsnum x y = js_add x y"

definition minus_jsnum :: "jsnum \<Rightarrow> jsnum \<Rightarrow> jsnum" where
  "minus_jsnum x y = js_add x (js_neg y)"

definition times_jsnum :: "jsnum \<Rightarrow> jsnum \<Rightarrow> jsnum" where
  "times_jsnum x y = js_mul x y"

definition divide_jsnum :: "jsnum \<Rightarrow> jsnum \<Rightarrow> jsnum" where
  "divide_jsnum x y = js_div x y"

definition inverse_jsnum :: "jsnum \<Rightarrow> jsnum" where
  "inverse_jsnum x = js_div (Fin 1) x"

instance ..

end

text \<open>
  \<^verbatim>\<open>x.toFixed(1)\<close>: the decimal with one fractional digit nearest to the double \<open>x\<close>, the
  larger in magnitude on a tie; from \<open>10 ^ 21\<close> on, and for an infinity or \<^verbatim>\<open>NaN\<close>, the
  text of the number itself. The model keeps the number that the resulting string
  denotes.
\<close>

definition toFixed1 :: "jsnum \<Rightarrow> jsnum" where
  "toFixed1 x =
     (case x of
        Fin a \<Rightarrow>
          (if 10 ^ 21 \<le> \<bar>a\<bar> then Fin a
           else if a < 0 then Fin (- (of_int \<lfloor>- a * 10 + 1 / 2\<rfloor> / 10))
           else Fin (of_int \<lfloor>a * 10 + 1 / 2\<rfloor> / 10))
      | _ \<Rightarrow> x)"


section \<open>Risk multiple of one trade (Dashboard.tsx, inlined twice)\<close>

text \<open>Truthiness of an optional number: defined and not zero.\<close>

definition truthy :: "real option \<Rightarrow> bool" where
  "truthy v = (case v of None \<Rightarrow> False | Some x \<Rightarrow> x \<noteq> 0)"

definition num :: "real option \<Rightarrow> real" where
  "num v = (case v of None \<Rightarrow> 0 | Some x \<Rightarrow> x)"

text \<open>The reducer of \<^verbatim>\<open>totalRREarned\<close> in \<^verbatim>\<open>stats\<close> (lines 80-93).\<close>

definition rrReducer :: "jsnum \<Rightarrow> Trade \<Rightarrow> jsnum" where
  "rrReducer acc trade =
     (if rr trade \<noteq> None
        then acc + (if outcome trade = SL then - 1 else Fin (num (rr trade)))
      else if outcome trade = TP \<and> truthy (slSize trade) \<and> truthy (tpSize trade)
              \<and> num (slSize trade) > 0
        then acc + Fin (num (tpSize trade)) / Fin (num (slSize trade))
      else if outcome trade = SL then acc - 1
      else acc)"

text \<open>The variable \<^verbatim>\<open>tradeRR\<close> in \<^verbatim>\<open>cumulativeRRData\<close> (lines 267-274).\<close>

definition tradeRR :: "Trade \<Rightarrow> jsnum" where
  "tradeRR trade =
     (if rr trade \<noteq> None then (if outcome trade = SL then - 1 else Fin (num (rr trade)))
      else if outcome trade = TP \<and> truthy (tpSize trade) \<and> truthy (slSize trade)
              \<and> num (slSize trade) > 0
        then Fin (num (tpSize trade)) / Fin (num (slSize trade))
      else if outcome trade = SL then - 1
      else 0)"

section \<open>Summary statistics (Dashboard.tsx, stats)\<close>

text \<open>
  The counts are lengths of arrays, which are whole numbers below \<open>2 ^ 32\<close> and exact
  as doubles. \<^verbatim>\<open>winRate\<close> is the string that \<^verbatim>\<open>toFixed(1)\<close> returns, or \<^verbatim>\<open>'0.0'\<close>; the model
  keeps the number it denotes.
\<close>

record Stats =
  totalTrades :: nat
  wins :: nat
  losses :: nat
  breakEvens :: nat
  winRate :: jsnum
  totalRREarned :: jsnum
  averageRR :: jsnum

definition stats :: "Trade list \<Rightarrow> Stats" where
  "stats trades =
     (let totalTrades = length (filter (\<lambda>t. outcome t \<noteq> NO_TRADE) trades);
          wins = length (filter (\<lambda>t. outcome t = TP) trades);
          losses = length (filter (\<lambda>t. outcome t = SL) trades);
          breakEvens = length (filter (\<lambda>t. outcome t = BE) trades);
          winRate = (if totalTrades > 0 \<and> wins + losses > 0
                     then toFixed1 (Fin (real wins) / Fin (real (wins + losses)) * Fin 100)
                     else 0);
          totalRREarned = foldl rrReducer 0 (filter (\<lambda>t. outcome t \<noteq> NO_TRADE) trades);
          averageRR = (if totalTrades > 0 then totalRREarned / Fin (real totalTrades)
                       else 0)
      in \<lparr> totalTrades = totalTrades, wins = wins, losses = losses,
           breakEvens = breakEvens, winRate = winRate,
           totalRREarned = totalRREarned, averageRR = averageRR \<rparr>)"

section \<open>Array.prototype.sort\<close>

text \<open>
  The library's sort is not part of the repository. ECMAScript requires it to be stable
  and to return the sorted order when \<^verbatim>\<open>comparefn\<close> is a consistent comparator; when it
  is not, the order is implementation-defined. The model is an insertion sort that
  takes the items from left to right and moves each one towards the front past the
  items it is out of order with. Implementations differ in the question they put to
  the comparator, and the parameter \<open>SortEngine\<close> makes that choice explicit:
  \<open>AsksLessEq\<close> stops at the first earlier item \<open>prev\<close> with
  \<^verbatim>\<open>comparefn(prev, item) <= 0\<close>; \<open>AsksLess\<close> stops at the first earlier item for which
  \<^verbatim>\<open>comparefn(item, prev) < 0\<close> is false. The two agree on every consistent comparator
  (lemma \<open>js_sort_engines_agree\<close>).
  The second argument of \<open>insertItem\<close> is the sorted prefix, last item first.
\<close>

datatype SortEngine = AsksLessEq | AsksLess

definition inOrder :: "SortEngine \<Rightarrow> ('a \<Rightarrow> 'a \<Rightarrow> real) \<Rightarrow> 'a \<Rightarrow> 'a \<Rightarrow> bool" where
  "inOrder eng comparefn prev item =
     (case eng of
        AsksLessEq \<Rightarrow> comparefn prev item \<le> 0
      | AsksLess \<Rightarrow> \<not> comparefn item prev < 0)"

fun insertItem :: "SortEngine \<Rightarrow> ('a \<Rightarrow> 'a \<Rightarrow> real) \<Rightarrow> 'a \<Rightarrow> 'a list \<Rightarrow> 'a list" where
  "insertItem eng comparefn item [] = [item]"
| "insertItem eng comparefn item (prev # before) =
     (if inOrder eng comparefn prev item then item # prev # before
      else prev # insertItem eng comparefn item before)"

definition js_sort :: "SortEngine \<Rightarrow> ('a \<Rightarrow> 'a \<Rightarrow> real) \<Rightarrow> 'a list \<Rightarrow> 'a list" where
  "js_sort eng comparefn xs =
     rev (foldl (\<lambda>sorted item. insertItem eng comparefn item sorted) [] xs)"

section \<open>Filter and sort pipeline (Dashboard.tsx, filteredAndSortedTrades)\<close>

text \<open>
  The filter state. The empty string of a date input and the value \<^verbatim>\<open>'all'\<close> of a
  select are \<open>None\<close>; a date filter holds the time value of \<^verbatim>\<open>new Date(filters.startDate)\<close>.
  The range select offers \<^verbatim>\<open>'all'\<close>, \<^verbatim>\<open>'0-5'\<close>, \<^verbatim>\<open>'5-10'\<close>, \<^verbatim>\<open>'10-20'\<close> and \<^verbatim>\<open>'20-'\<close>;
  \<open>RangeBucket minv maxv\<close> is the result of \<^verbatim>\<open>split('-')\<close> and \<^verbatim>\<open>parseFloat\<close> on such a value,
  with \<open>None\<close> for the \<^verbatim>\<open>Infinity\<close> that an empty upper part gives. The day-of-week select
  offers \<^verbatim>\<open>'1'\<close> to \<^verbatim>\<open>'5'\<close>; the filter holds the number whose decimal text it is.
\<close>

datatype RangeFilter = RangeAll | RangeBucket real "real option"

definition rangeOptions :: "RangeFilter list" where
  "rangeOptions =
     [RangeAll, RangeBucket 0 (Some 5), RangeBucket 5 (Some 10),
      RangeBucket 10 (Some 20), RangeBucket 20 None]"

record Filters =
  startDate :: "int option"
  endDate :: "int option"
  filter_outcome :: "Outcome option"
  filter_type :: "TradeType option"
  filter_rangeSize :: RangeFilter
  dayOfWeek :: "int option"

text \<open>The state after \<^verbatim>\<open>resetFilters\<close>.\<close>

definition noFilters :: Filters where
  "noFilters = \<lparr> startDate = None, endDate = None, filter_outcome = None,
                  filter_type = None, filter_rangeSize = RangeAll, dayOfWeek = None \<rparr>"

text \<open>The predicate of the range filter (lines 145-148).\<close>

definition rangeSizeMatches :: "real \<Rightarrow> real option \<Rightarrow> Trade \<Rightarrow> bool" where
  "rangeSizeMatches minv maxv t =
     (case rangeSize t of
        None \<Rightarrow> False
      | Some r \<Rightarrow> r \<ge> minv \<and> (case maxv of None \<Rightarrow> True | Some m \<Rightarrow> r < m))"

text \<open>The predicate of the day-of-week filter (lines 151-156).\<close>

definition dayOfWeekMatches :: "int \<Rightarrow> int \<Rightarrow> Trade \<Rightarrow> bool" where
  "dayOfWeekMatches tz k t = (getUTCDay (utcDate tz (date t)) = k)"

definition applyFilters :: "int \<Rightarrow> Filters \<Rightarrow> Trade list \<Rightarrow> Trade list" where
  "applyFilters tz filters trades =
     (let f1 = (case startDate filters of None \<Rightarrow> trades
                | Some s \<Rightarrow> filter (\<lambda>t. date t \<ge> s) trades);
          f2 = (case endDate filters of None \<Rightarrow> f1
                | Some e \<Rightarrow> filter (\<lambda>t. date t \<le> e) f1);
          f3 = (case filter_outcome filters of None \<Rightarrow> f2
                | Some oc \<Rightarrow> filter (\<lambda>t. outcome t = oc) f2);
          f4 = (case filter_type filters of None \<Rightarrow> f3
                | Some ty \<Rightarrow> filter (\<lambda>t. type t = Some ty) f3);
          f5 = (case filter_rangeSize filters of RangeAll \<Rightarrow> f4
                | RangeBucket minv maxv \<Rightarrow> filter (rangeSizeMatches minv maxv) f4)
      in (case dayOfWeek filters of None \<Rightarrow> f5
          | Some k \<Rightarrow> filter (dayOfWeekMatches tz k) f5))"

text \<open>
  Sorting. \<open>fieldValue key t\<close> is \<^verbatim>\<open>t[key]\<close>, \<open>None\<close> when it is \<^verbatim>\<open>null\<close> or
  \<^verbatim>\<open>undefined\<close>. A value that is neither the date nor a number is compared through
  \<^verbatim>\<open>String(value)\<close>, so the model keeps that string: the enum's own text, and
  \<^verbatim>\<open>[object Object]\<close> for the image object. \<^verbatim>\<open>localeCompare\<close> depends on the host's
  locale and is the parameter \<open>localeCompare\<close>.
\<close>

datatype SortKey =
  K_id | K_date | K_type | K_outcome | K_slSize | K_tpSize | K_rr | K_rangeSize
  | K_notes | K_activationTime | K_slSweepNotes | K_images

datatype SortDirection = ascending | descending

datatype JSValue = JDate int | JNumber real | JString jsString

definition typeString :: "TradeType \<Rightarrow> jsString" where
  "typeString ty = (case ty of BUY \<Rightarrow> ascii ''BUY'' | SELL \<Rightarrow> ascii ''SELL'')"

definition outcomeString :: "Outcome \<Rightarrow> jsString" where
  "outcomeString oc =
     (case oc of TP \<Rightarrow> ascii ''TP'' | SL \<Rightarrow> ascii ''SL'' | BE \<Rightarrow> ascii ''BE''
      | NO_TRADE \<Rightarrow> ascii ''NO_TRADE'')"

definition fieldValue :: "SortKey \<Rightarrow> Trade \<Rightarrow> JSValue option" where
  "fieldValue key t =
     (case key of
        K_id \<Rightarrow> Some (JString (trade_id t))
      | K_date \<Rightarrow> Some (JDate (date t))
      | K_type \<Rightarrow> map_option (\<lambda>ty. JString (typeString ty)) (type t)
      | K_outcome \<Rightarrow> Some (JString (outcomeString (outcome t)))
      | K_slSize \<Rightarrow> map_option JNumber (slSize t)
      | K_tpSize \<Rightarrow> map_option JNumber (tpSize t)
      | K_rr \<Rightarrow> map_option JNumber (rr t)
      | K_rangeSize \<Rightarrow> map_option JNumber (rangeSize t)
      | K_notes \<Rightarrow> Some (JString (trade_notes t))
      | K_activationTime \<Rightarrow> map_option JString (activationTime t)
      | K_slSweepNotes \<Rightarrow> map_option JString (slSweepNotes t)
      | K_images \<Rightarrow> map_option (\<lambda>_. JString (ascii ''[object Object]'')) (images t))"

text \<open>
  The comparator passed to \<^verbatim>\<open>sort\<close> (lines 159-176). The two values come from the same
  field, so they have the same kind; the last case of \<open>comparison\<close> cannot be reached.
\<close>

definition comparison :: "(jsString \<Rightarrow> jsString \<Rightarrow> real) \<Rightarrow> JSValue \<Rightarrow> JSValue \<Rightarrow> real" where
  "comparison localeCompare aValue bValue =
     (case (aValue, bValue) of
        (JDate x, JDate y) \<Rightarrow> of_int (x - y)
      | (JNumber x, JNumber y) \<Rightarrow> x - y
      | (JString x, JString y) \<Rightarrow> localeCompare x y
      | _ \<Rightarrow> 0)"

definition sortCompare ::
  "(jsString \<Rightarrow> jsString \<Rightarrow> real) \<Rightarrow> SortKey \<Rightarrow> SortDirection \<Rightarrow> Trade \<Rightarrow> Trade \<Rightarrow> real" where
  "sortCompare localeCompare key direction a b =
     (case fieldValue key a of
        None \<Rightarrow> 1
      | Some aValue \<Rightarrow>
          (case fieldValue key b of
             None \<Rightarrow> - 1
           | Some bValue \<Rightarrow>
               (if direction = descending then - comparison localeCompare aValue bValue
                else comparison localeCompare aValue bValue)))"

definition sortTrades ::
  "SortEngine \<Rightarrow> (jsString \<Rightarrow> jsString \<Rightarrow> real) \<Rightarrow> SortKey \<Rightarrow> SortDirection
     \<Rightarrow> Trade list \<Rightarrow> Trade list" where
  "sortTrades eng localeCompare key direction trades =
     js_sort eng (sortCompare localeCompare key direction) trades"

definition filteredAndSortedTrades ::
  "SortEngine \<Rightarrow> (jsString \<Rightarrow> jsString \<Rightarrow> real) \<Rightarrow> int \<Rightarrow> Filters \<Rightarrow> SortKey \<Rightarrow> SortDirection
     \<Rightarrow> Trade list \<Rightarrow> Trade list" where
  "filteredAndSortedTrades eng localeCompare tz filters key direction trades =
     sortTrades eng localeCompare key direction (applyFilters tz filters trades)"

text \<open>
  The order that the specification asks of the table: records without a value for the
  key come last, whatever the direction; the others are ordered by \<open>comparison\<close>,
  reversed when the direction is descending. \<open>sameKind\<close> relates two values of the same
  JavaScript type.
\<close>

definition valueLe :: "(jsString \<Rightarrow> jsString \<Rightarrow> real) \<Rightarrow> SortDirection \<Rightarrow> JSValue \<Rightarrow> JSValue \<Rightarrow> bool" where
  "valueLe localeCompare direction x y =
     (if direction = descending then comparison localeCompare x y \<ge> 0
      else comparison localeCompare x y \<le> 0)"

definition nullsLast ::
  "(jsString \<Rightarrow> jsString \<Rightarrow> real) \<Rightarrow> SortKey \<Rightarrow> SortDirection \<Rightarrow> Trade \<Rightarrow> Trade \<Rightarrow> bool" where
  "nullsLast localeCompare key direction a b =
     (case fieldValue key b of
        None \<Rightarrow> True
      | Some bValue \<Rightarrow>
          (case fieldValue key a of
             None \<Rightarrow> False
           | Some aValue \<Rightarrow> valueLe localeCompare direction aValue bValue))"

fun sameKind :: "JSValue \<Rightarrow> JSValue \<Rightarrow> bool" where
  "sameKind (JDate x) (JDate y) = True"
| "sameKind (JNumber x) (JNumber y) = True"
| "sameKind (JString x) (JString y) = True"
| "sameKind _ _ = False"

section \<open>Time series (Dashboard.tsx)\<close>

text \<open>
  The objects and the \<^verbatim>\<open>Map\<close> that collect the groups keep their keys in insertion
  order; they are association lists. \<open>upsert k f init\<close> applies \<open>f\<close> to the entry
  of \<open>k\<close>, creating it with \<open>init\<close> at the end when \<open>k\<close> is new.
\<close>

fun upsert :: "'k \<Rightarrow> ('v \<Rightarrow> 'v) \<Rightarrow> 'v \<Rightarrow> ('k \<times> 'v) list \<Rightarrow> ('k \<times> 'v) list" where
  "upsert k f init [] = [(k, f init)]"
| "upsert k f init ((k', v) # rest) =
     (if k' = k then (k', f v) # rest else (k', v) # upsert k f init rest)"

text \<open>The comparator \<^verbatim>\<open>new Date(a.name).getTime() - new Date(b.name).getTime()\<close> on rows
  whose name is a calendar day.\<close>

definition compareByName :: "int \<times> 'r \<Rightarrow> int \<times> 'r \<Rightarrow> real" where
  "compareByName a b = of_int (dateOnly (fst a) - dateOnly (fst b))"

subsection \<open>Weekly win rate\<close>

text \<open>The week key of one trade (lines 202-204).\<close>

definition weekKey :: "int \<Rightarrow> Trade \<Rightarrow> int" where
  "weekKey tz trade =
     (let d = date trade;
          firstDay = setDateBack tz d (getDay tz d)
      in isoDay firstDay)"




subsection \<open>Daily TP/SL frequency\<close>

text \<open>The day key of one trade (lines 230 and 265).\<close>

definition dayKey :: "Trade \<Rightarrow> int" where
  "dayKey trade = isoDay (date trade)"

text \<open>A bucket and a row are \<open>(TP, SL)\<close>, the row with its name.\<close>

definition countTpSl :: "Outcome \<Rightarrow> nat \<times> nat \<Rightarrow> nat \<times> nat" where
  "countTpSl oc b =
     (case b of (tp, sl) \<Rightarrow>
        if oc = TP then (tp + 1, sl) else if oc = SL then (tp, sl + 1) else b)"

definition dailyTpslData :: "SortEngine \<Rightarrow> Trade list \<Rightarrow> (int \<times> nat \<times> nat) list" where
  "dailyTpslData eng trades =
     (let dailyData = foldl (\<lambda>dailyData trade.
                         if outcome trade = TP \<or> outcome trade = SL
                         then upsert (dayKey trade) (countTpSl (outcome trade)) (0, 0) dailyData
                         else dailyData) [] trades
      in js_sort eng compareByName dailyData)"

subsection \<open>Cumulative R/R\<close>





subsection \<open>Performance by day of week\<close>



text \<open>The index into \<^verbatim>\<open>days\<close> for one trade (lines 310-312).\<close>

definition performanceDayIndex :: "int \<Rightarrow> Trade \<Rightarrow> int" where
  "performanceDayIndex tz trade = getUTCDay (utcDate tz (date trade))"







section \<open>Stop-sweep notes analysis (geminiService.ts, analyzeSlSweepsWithAI)\<close>










section \<open>The stored collection (useTrades.ts)\<close>

text \<open>
  The state is the list \<^verbatim>\<open>trades\<close>; each operation maps the previous list to the next.
  \<open>newId\<close> is the text that \<^verbatim>\<open>new Date().toISOString() + Math.random()\<close> produced for
  this call; \<open>tradeData\<close> is a trade whose own id is not read.
\<close>

definition compareNewestFirst :: "Trade \<Rightarrow> Trade \<Rightarrow> real" where
  "compareNewestFirst a b = of_int (date b - date a)"

definition addTrade :: "SortEngine \<Rightarrow> jsString \<Rightarrow> Trade \<Rightarrow> Trade list \<Rightarrow> Trade list" where
  "addTrade eng newId tradeData prevTrades =
     (let newTrade = tradeData\<lparr>trade_id := newId\<rparr>
      in js_sort eng compareNewestFirst (prevTrades @ [newTrade]))"

definition deleteTrade :: "jsString \<Rightarrow> Trade list \<Rightarrow> Trade list" where
  "deleteTrade i prevTrades = filter (\<lambda>trade. trade_id trade \<noteq> i) prevTrades"

section \<open>Risk multiples that add without rounding\<close>






section \<open>Example records\<close>

text \<open>A record with the given id, date and outcome and every optional field absent.\<close>

definition blankTrade :: "string \<Rightarrow> int \<Rightarrow> Outcome \<Rightarrow> Trade" where
  "blankTrade i d oc =
     \<lparr> trade_id = ascii i, date = d, type = None, outcome = oc, slSize = None, tpSize = None,
       rr = None, rangeSize = None, trade_notes = [], activationTime = None,
       slSweepNotes = None, images = None \<rparr>"


text \<open>Three records for the range filter: range sizes 7 and 10, and none.\<close>

definition rangeTrades :: "Trade list" where
  "rangeTrades =
     [(blankTrade ''r7'' (dateOnly (isoDate 2024 6 3)) TP)\<lparr>rangeSize := Some 7\<rparr>,
      (blankTrade ''r10'' (dateOnly (isoDate 2024 6 4)) SL)\<lparr>rangeSize := Some 10\<rparr>,
      blankTrade ''r0'' (dateOnly (isoDate 2024 6 5)) BE]"

text \<open>Records dated Monday 2024-06-03 and Tuesday 2024-06-04.\<close>

definition mondayTrade :: Trade where
  "mondayTrade = blankTrade ''mon'' (dateOnly (isoDate 2024 6 3)) TP"

definition tuesdayTrade :: Trade where
  "tuesdayTrade = blankTrade ''tue'' (dateOnly (isoDate 2024 6 4)) SL"




text \<open>Two days without a trade: neither record has an \<^verbatim>\<open>rr\<close> value.\<close>

definition noRr1 :: Trade where
  "noRr1 = blankTrade ''n1'' (dateOnly (isoDate 2024 6 3)) NO_TRADE"

definition noRr2 :: Trade where
  "noRr2 = blankTrade ''n2'' (dateOnly (isoDate 2024 6 4)) NO_TRADE"


definition wins23Losses57 :: "Trade list" where
  "wins23Losses57 = replicate 23 (blankTrade ''w'' 0 TP) @ replicate 57 (blankTrade ''l'' 0 SL)"









section \<open>The days of the examples\<close>

lemma isoDate_june_2024:
  "isoDate 2024 6 2 = 19876" "isoDate 2024 6 3 = 19877"
  "isoDate 2024 6 4 = 19878" "isoDate 2024 6 5 = 19879"
  by (simp_all add: isoDate_def MakeDay_def DayFromYear_def daysBeforeMonth_def InLeapYear_def)

lemma isoDate_epoch: "isoDate 1970 1 1 = 0"
  by (simp add: isoDate_def MakeDay_def DayFromYear_def daysBeforeMonth_def InLeapYear_def)

section \<open>Properties of the sort\<close>

text \<open>The sort permutes its input, whatever the comparator and the engine.\<close>

lemma mset_insertItem: "mset (insertItem eng comparefn item ps) = add_mset item (mset ps)"
  by (induction ps) simp_all

lemma mset_foldl_insertItem:
  "mset (foldl (\<lambda>sorted item. insertItem eng comparefn item sorted) acc xs) = mset acc + mset xs"
  by (induction xs arbitrary: acc) (simp_all add: mset_insertItem)

lemma mset_js_sort: "mset (js_sort eng comparefn xs) = mset xs"
  by (simp add: js_sort_def mset_foldl_insertItem)

lemma set_js_sort: "set (js_sort eng comparefn xs) = set xs"
  using mset_js_sort [of eng comparefn xs] by (metis set_mset_mset)



text \<open>Sortedness, for a comparator whose in-order test is a total preorder on the records
  of a set \<open>S\<close> that holds the list.\<close>

lemma set_insertItem: "set (insertItem eng comparefn item ps) = insert item (set ps)"
  using mset_insertItem [of eng comparefn item ps] by (metis set_mset_mset set_mset_add_mset_insert)

lemma sorted_insertItem_on:
  assumes tot: "\<And>a b. le a b \<or> le b a"
    and trans: "\<And>a b c. le a b \<Longrightarrow> le b c \<Longrightarrow> le a c"
    and io: "\<And>a b. a \<in> S \<Longrightarrow> b \<in> S \<Longrightarrow> inOrder eng comparefn a b = le a b"
    and item: "item \<in> S"
  shows "set ps \<subseteq> S \<Longrightarrow> sorted_wrt (\<lambda>a b. le b a) ps \<Longrightarrow>
         sorted_wrt (\<lambda>a b. le b a) (insertItem eng comparefn item ps)"
proof (induction ps)
  case Nil
  then show ?case by simp
next
  case (Cons p ps)
  have pS: "p \<in> S" using Cons.prems by simp
  show ?case
  proof (cases "le p item")
    case True
    then have "\<forall>q\<in>set ps. le q item" using Cons.prems trans by auto
    with True Cons.prems show ?thesis by (simp add: io [OF pS item])
  next
    case False
    then have "le item p" using tot by blast
    with False Cons show ?thesis by (auto simp add: io [OF pS item] set_insertItem)
  qed
qed

lemma sorted_foldl_insertItem_on:
  assumes tot: "\<And>a b. le a b \<or> le b a"
    and trans: "\<And>a b c. le a b \<Longrightarrow> le b c \<Longrightarrow> le a c"
    and io: "\<And>a b. a \<in> S \<Longrightarrow> b \<in> S \<Longrightarrow> inOrder eng comparefn a b = le a b"
  shows "set xs \<subseteq> S \<Longrightarrow> set acc \<subseteq> S \<Longrightarrow> sorted_wrt (\<lambda>a b. le b a) acc \<Longrightarrow>
         sorted_wrt (\<lambda>a b. le b a) (foldl (\<lambda>sorted item. insertItem eng comparefn item sorted) acc xs)"
proof (induction xs arbitrary: acc)
  case Nil
  then show ?case by simp
next
  case (Cons x xs)
  have xS: "x \<in> S" using Cons.prems by simp
  have "sorted_wrt (\<lambda>a b. le b a) (insertItem eng comparefn x acc)"
    using sorted_insertItem_on [of le S eng comparefn x acc] tot trans io xS Cons.prems
    by blast
  moreover have "set (insertItem eng comparefn x acc) \<subseteq> S"
    using xS Cons.prems by (simp add: set_insertItem)
  moreover have "set xs \<subseteq> S" using Cons.prems by simp
  ultimately show ?case using Cons.IH by simp
qed

lemma sorted_js_sort_on:
  assumes tot: "\<And>a b. le a b \<or> le b a"
    and trans: "\<And>a b c. le a b \<Longrightarrow> le b c \<Longrightarrow> le a c"
    and io: "\<And>a b. a \<in> S \<Longrightarrow> b \<in> S \<Longrightarrow> inOrder eng comparefn a b = le a b"
    and sub: "set xs \<subseteq> S"
  shows "sorted_wrt le (js_sort eng comparefn xs)"
proof -
  have "sorted_wrt (\<lambda>a b. le b a) (foldl (\<lambda>sorted item. insertItem eng comparefn item sorted) [] xs)"
    using sorted_foldl_insertItem_on [of le S eng comparefn xs "[]"] tot trans io sub by simp
  then show ?thesis by (simp add: js_sort_def sorted_wrt_rev)
qed

lemma sorted_js_sort:
  assumes tot: "\<And>a b. le a b \<or> le b a"
    and trans: "\<And>a b c. le a b \<Longrightarrow> le b c \<Longrightarrow> le a c"
    and io: "\<And>a b. inOrder eng comparefn a b = le a b"
  shows "sorted_wrt le (js_sort eng comparefn xs)"
  by (rule sorted_js_sort_on [where S = UNIV]) (use tot trans io in blast)+

text \<open>A list whose neighbours are in order is left as it is.\<close>

lemma foldl_insertItem_in_order:
  "successively (inOrder eng comparefn) (rev acc @ xs) \<Longrightarrow>
   foldl (\<lambda>sorted item. insertItem eng comparefn item sorted) acc xs = rev xs @ acc"
proof (induction xs arbitrary: acc)
  case Nil
  then show ?case by simp
next
  case (Cons x xs)
  have ins: "insertItem eng comparefn x acc = x # acc"
  proof (cases acc)
    case Nil
    then show ?thesis by simp
  next
    case (Cons p ps)
    with Cons.prems have "inOrder eng comparefn p x"
      by (simp add: successively_append_iff)
    with Cons show ?thesis by simp
  qed
  have "successively (inOrder eng comparefn) (rev (x # acc) @ xs)"
    using Cons.prems by simp
  then show ?case using Cons.IH [of "x # acc"] ins by simp
qed

lemma js_sort_in_order:
  "successively (inOrder eng comparefn) xs \<Longrightarrow> js_sort eng comparefn xs = xs"
  using foldl_insertItem_in_order [of eng comparefn "[]" xs] by (simp add: js_sort_def)

lemma js_sort_idempotent_on:
  assumes tot: "\<And>a b. le a b \<or> le b a"
    and trans: "\<And>a b c. le a b \<Longrightarrow> le b c \<Longrightarrow> le a c"
    and io: "\<And>a b. a \<in> S \<Longrightarrow> b \<in> S \<Longrightarrow> inOrder eng comparefn a b = le a b"
    and sub: "set xs \<subseteq> S"
  shows "js_sort eng comparefn (js_sort eng comparefn xs) = js_sort eng comparefn xs"
proof -
  let ?ys = "js_sort eng comparefn xs"
  have ysS: "set ?ys \<subseteq> S" using sub by (simp add: set_js_sort)
  have "sorted_wrt le ?ys"
    using sorted_js_sort_on [of le S eng comparefn xs] tot trans io sub by blast
  then have "sorted_wrt (\<lambda>a b. inOrder eng comparefn a b) ?ys"
    by (rule sorted_wrt_mono_rel [rotated]) (use io ysS in blast)
  then have "successively (inOrder eng comparefn) ?ys"
    by (rule successively_if_sorted_wrt)
  then show ?thesis by (rule js_sort_in_order)
qed

lemma insertItem_engines_agree:
  "\<forall>p\<in>set ps. inOrder AsksLessEq comparefn p item = inOrder AsksLess comparefn p item \<Longrightarrow>
   insertItem AsksLessEq comparefn item ps = insertItem AsksLess comparefn item ps"
  by (induction ps) simp_all

lemma js_sort_engines_agree:
  assumes "\<And>a b. (comparefn a b \<le> 0) = (\<not> comparefn b a < 0)"
  shows "js_sort AsksLessEq comparefn xs = js_sort AsksLess comparefn xs"
proof -
  have "inOrder AsksLessEq comparefn = inOrder AsksLess comparefn"
    using assms by (auto simp add: inOrder_def fun_eq_iff)
  then have "insertItem AsksLessEq comparefn = insertItem AsksLess comparefn"
    using insertItem_engines_agree [of _ comparefn] by (auto simp add: fun_eq_iff)
  then show ?thesis by (simp add: js_sort_def)
qed

section \<open>Properties of JavaScript numbers\<close>

text \<open>\<open>exponent x\<close> is the power of two at or below \<open>x\<close>.\<close>

lemma pow2_pos: "0 < pow2 k"
  by (simp add: pow2_def)


lemma pow2_mono: "j \<le> k \<Longrightarrow> pow2 j \<le> pow2 k"
proof -
  have p: "pow2 i = 2 powr (of_int i)" for i
    by (simp add: pow2_def powr_real_of_int divide_inverse)
  show "j \<le> k \<Longrightarrow> pow2 j \<le> pow2 k" by (simp add: p)
qed

lemma pow2_nat: "pow2 (int n) = 2 ^ n"
  by (simp add: pow2_def)

lemma pow2_neg_nat: "pow2 (- int n) = 1 / 2 ^ n"
  by (auto simp add: pow2_def)

lemma exponent_bounds:
  assumes "0 < x"
  shows "pow2 (exponent x) \<le> x \<and> x < pow2 (exponent x + 1)"
proof (cases "1 \<le> x")
  case True
  define n where "n = \<lfloor>x\<rfloor>"
  have n1: "1 \<le> n" using True by (simp add: n_def)
  then have npos: "0 < n" by simp
  have b: "2 ^ nat (bitlen n - 1) \<le> n \<and> n < 2 ^ nat (bitlen n)"
    using npos by (rule bitlen_bounds)
  have bl: "1 \<le> bitlen n" using npos by (simp add: bitlen_alt_def)
  have e: "exponent x = bitlen n - 1" using True by (simp add: exponent_def n_def)
  have lo: "pow2 (bitlen n - 1) \<le> x"
  proof -
    have "pow2 (bitlen n - 1) = 2 ^ nat (bitlen n - 1)" using bl by (simp add: pow2_def)
    also have "\<dots> \<le> real_of_int n"
      using b of_int_le_iff [of "2 ^ nat (bitlen n - 1)" n, where ?'a = real] by simp
    also have "\<dots> \<le> x" by (simp add: n_def)
    finally show ?thesis .
  qed
  have hi: "x < pow2 (bitlen n)"
  proof -
    have "n + 1 \<le> 2 ^ nat (bitlen n)" using b by simp
    then have "real_of_int (n + 1) \<le> 2 ^ nat (bitlen n)"
      using of_int_le_iff [of "n + 1" "2 ^ nat (bitlen n)", where ?'a = real] by simp
    moreover have "x < real_of_int (n + 1)" unfolding n_def by linarith
    moreover have "pow2 (bitlen n) = 2 ^ nat (bitlen n)" using bl by (simp add: pow2_def)
    ultimately show ?thesis by simp
  qed
  show ?thesis using lo hi by (simp add: e)
next
  case False
  then have x1: "x < 1" by simp
  define m where "m = \<lceil>1 / x\<rceil>"
  have inv: "1 < 1 / x" using assms x1 by simp
  have m2: "2 \<le> m" using inv unfolding m_def by linarith
  then have mpos: "0 < m - 1" by simp
  define k where "k = bitlen (m - 1)"
  have b: "2 ^ nat (k - 1) \<le> m - 1 \<and> m - 1 < 2 ^ nat k"
    unfolding k_def using mpos by (rule bitlen_bounds)
  have k1: "1 \<le> k" unfolding k_def using mpos by (simp add: bitlen_alt_def)
  have e: "exponent x = - k" using False by (simp add: exponent_def m_def k_def)
  have up: "1 / x \<le> real_of_int m" by (simp add: m_def)
  have dn: "real_of_int (m - 1) < 1 / x" unfolding m_def by linarith
  have lo: "pow2 (- k) \<le> x"
  proof -
    have "m \<le> 2 ^ nat k" using b by simp
    then have "real_of_int m \<le> 2 ^ nat k"
      using of_int_le_iff [of m "2 ^ nat k", where ?'a = real] by simp
    then have "1 / x \<le> 2 ^ nat k" using up by linarith
    then have "1 \<le> 2 ^ nat k * x" using assms by (simp add: field_simps)
    then have "1 / 2 ^ nat k \<le> x" by (simp add: field_simps)
    moreover have "pow2 (- k) = 1 / 2 ^ nat k" using k1 by (simp add: pow2_def)
    ultimately show ?thesis by simp
  qed
  have hi: "x < pow2 (- k + 1)"
  proof -
    have "2 ^ nat (k - 1) \<le> real_of_int (m - 1)"
      using b of_int_le_iff [of "2 ^ nat (k - 1)" "m - 1", where ?'a = real] by simp
    then have "2 ^ nat (k - 1) < 1 / x" using dn by linarith
    then have "2 ^ nat (k - 1) * x < 1" using assms by (simp add: field_simps)
    then have "x < 1 / 2 ^ nat (k - 1)" by (simp add: field_simps)
    moreover have "pow2 (- k + 1) = 1 / 2 ^ nat (k - 1)"
    proof (cases "k = 1")
      case True
      then show ?thesis by (simp add: pow2_def)
    next
      case False
      then have "- k + 1 < 0" using k1 by simp
      moreover have "nat (- (- k + 1)) = nat (k - 1)" by simp
      ultimately show ?thesis by (simp add: pow2_def)
    qed
    ultimately show ?thesis by simp
  qed
  show ?thesis using lo hi by (simp add: e)
qed

lemma exponent_unique:
  assumes "0 < x" and lo: "pow2 e \<le> x" and hi: "x < pow2 (e + 1)"
  shows "exponent x = e"
proof (rule ccontr)
  assume ne: "exponent x \<noteq> e"
  have b: "pow2 (exponent x) \<le> x" "x < pow2 (exponent x + 1)"
    using exponent_bounds [OF assms(1)] by simp_all
  show False
  proof (cases "exponent x < e")
    case True
    then have "pow2 (exponent x + 1) \<le> pow2 e" by (intro pow2_mono) simp
    then show False using b lo by linarith
  next
    case False
    then have "e + 1 \<le> exponent x" using ne by simp
    then have "pow2 (e + 1) \<le> pow2 (exponent x)" by (rule pow2_mono)
    then show False using b hi by linarith
  qed
qed


lemma roundHalfEven_of_int: "roundHalfEven (real_of_int n) = n"
  by (simp add: roundHalfEven_def)



lemma fl_exact:
  assumes "x \<noteq> 0" and "- 1022 \<le> exponent \<bar>x\<bar>"
    and int: "x / pow2 (exponent \<bar>x\<bar> - 52) = real_of_int m"
    and small: "\<bar>x\<bar> < 2 ^ 1024"
  shows "fl x = Fin x"
proof -
  define q where "q = pow2 (exponent \<bar>x\<bar> - 52)"
  have qpos: "0 < q" by (simp add: q_def pow2_pos)
  have e: "max (exponent \<bar>x\<bar>) (- 1022) = exponent \<bar>x\<bar>" using assms(2) by simp
  have xq: "x / q = real_of_int m" using int by (simp add: q_def)
  then have xm: "real_of_int m * q = x" using qpos by (simp add: field_simps)
  have "real_of_int (roundHalfEven (x / q)) * q = real_of_int m * q"
    by (simp only: xq roundHalfEven_of_int)
  then have "real_of_int (roundHalfEven (x / q)) * q = x"
    by (simp only: xm)
  then show ?thesis
    using assms(1) small by (simp add: fl_def Let_def e q_def [symmetric])
qed

lemma fl_whole:
  assumes whole: "x \<in> \<int>" and bound: "\<bar>x\<bar> \<le> 2 ^ 53"
  shows "fl x = Fin x"
proof (cases "x = 0")
  case True
  then show ?thesis by (simp add: fl_def)
next
  case False
  obtain n where n: "x = real_of_int n" using whole by (auto elim: Ints_cases)
  have n0: "n \<noteq> 0" using False n by simp
  then have x1: "1 \<le> \<bar>x\<bar>" using n by (simp add: of_int_abs [symmetric] del: of_int_abs) 
  have xpos: "0 < \<bar>x\<bar>" using False by simp
  define e where "e = exponent \<bar>x\<bar>"
  have lo: "pow2 e \<le> \<bar>x\<bar>" and hi: "\<bar>x\<bar> < pow2 (e + 1)"
    using exponent_bounds [OF xpos] by (simp_all add: e_def)
  have e0: "0 \<le> e"
  proof (rule ccontr)
    assume "\<not> 0 \<le> e"
    then have "e + 1 \<le> 0" by simp
    then have "pow2 (e + 1) \<le> pow2 0" by (rule pow2_mono)
    then show False using hi x1 by (simp add: pow2_def)
  qed
  have e53: "e \<le> 53"
  proof (rule ccontr)
    assume "\<not> e \<le> 53"
    then have "54 \<le> e" by simp
    then have "pow2 54 \<le> pow2 e" by (rule pow2_mono)
    then show False using lo bound by (simp add: pow2_def)
  qed
  have "\<exists>m. x / pow2 (e - 52) = real_of_int m"
  proof (cases "e \<le> 52")
    case True
    then have "pow2 (e - 52) = 1 / 2 ^ nat (52 - e)" by (auto simp add: pow2_def)
    then have "x / pow2 (e - 52) = real_of_int (n * 2 ^ nat (52 - e))" by (simp add: n)
    then show ?thesis by blast
  next
    case False
    then have e: "e = 53" using e53 by simp
    then have "2 ^ 53 \<le> \<bar>x\<bar>" using lo by (simp add: pow2_def)
    then have ax: "\<bar>x\<bar> = 2 ^ 53" using bound by simp
    have "x / pow2 (e - 52) = x / 2" by (simp add: e pow2_def)
    moreover have "x = 2 ^ 53 \<or> x = - (2 ^ 53)" using ax by linarith
    ultimately have "x / pow2 (e - 52) = real_of_int (2 ^ 52) \<or> x / pow2 (e - 52) = real_of_int (- (2 ^ 52))"
      by auto
    then show ?thesis by blast
  qed
  then obtain m where m: "x / pow2 (exponent \<bar>x\<bar> - 52) = real_of_int m"
    by (auto simp add: e_def)
  have "\<bar>x\<bar> < 2 ^ 1024" using bound by (rule le_less_trans) simp
  moreover have "- 1022 \<le> exponent \<bar>x\<bar>" using e0 by (simp add: e_def)
  ultimately show ?thesis using False m by (intro fl_exact)
qed


text \<open>
  The value of \<open>fl\<close> from the exponent and the rounded significand, and \<open>fl\<close> on a power of
  two.
\<close>

lemma fl_value:
  assumes nz: "x \<noteq> 0" and lo: "pow2 e \<le> \<bar>x\<bar>" and hi: "\<bar>x\<bar> < pow2 (e + 1)"
    and e: "- 1022 \<le> e"
    and m: "roundHalfEven (x / pow2 (e - 52)) = m"
    and small: "\<bar>real_of_int m * pow2 (e - 52)\<bar> < 2 ^ 1024"
  shows "fl x = Fin (real_of_int m * pow2 (e - 52))"
proof -
  have "0 < \<bar>x\<bar>" using nz by simp
  then have ex: "exponent \<bar>x\<bar> = e" using lo hi by (rule exponent_unique)
  have mx: "max e (- 1022) = e" using e by simp
  show ?thesis using nz small by (simp add: fl_def Let_def ex mx m)
qed











lemma twentythree_in_eighty: "Fin 23 / Fin 80 = Fin (2589569785738035 / 9007199254740992)"
  using fl_value [of "23 / 80" "- 2" 5179139571476070]
  by (simp add: divide_jsnum_def pow2_def roundHalfEven_def Let_def)

lemma twentythree_in_eighty_percent:
  "Fin (2589569785738035 / 9007199254740992) * Fin 100
     = Fin (8092405580431359 / 281474976710656)"
  using fl_value [of "2589569785738035 / 9007199254740992 * 100" 4 8092405580431359]
  by (simp add: times_jsnum_def pow2_def roundHalfEven_def Let_def)


section \<open>Properties of the risk multiple and the summary statistics\<close>

text \<open>
  C1. A trade whose outcome is \<^verbatim>\<open>SL\<close> contributes exactly \<open>-1\<close>, whatever its \<^verbatim>\<open>rr\<close>
  field holds: the reducer of the total goes from \<open>acc\<close> to \<open>acc - 1\<close>, and the
  per-trade value of the equity curve is \<open>-1\<close>.
\<close>

theorem C1_stop_loss_is_minus_one:
  "outcome trade = SL \<Longrightarrow> rrReducer acc trade = acc - 1 \<and> tradeRR trade = - 1"
  by (simp add: rrReducer_def tradeRR_def minus_jsnum_def plus_jsnum_def uminus_jsnum_def)

lemma fl_minus_one: "fl (- 1) = Fin (- 1)"
  by (rule fl_whole) simp_all

theorem C1_stop_loss_is_minus_one_witness:
  "outcome ((blankTrade ''t1'' 0 SL)\<lparr>rr := Some 3\<rparr>) = SL
   \<and> rrReducer 0 ((blankTrade ''t1'' 0 SL)\<lparr>rr := Some 3\<rparr>) = - 1
   \<and> tradeRR ((blankTrade ''t1'' 0 SL)\<lparr>rr := Some 3\<rparr>) = - 1"
  using C1_stop_loss_is_minus_one [of "(blankTrade ''t1'' 0 SL)\<lparr>rr := Some 3\<rparr>" 0]
  by (simp add: blankTrade_def minus_jsnum_def zero_jsnum_def one_jsnum_def uminus_jsnum_def
      fl_minus_one)







lemma wins_losses_le_totalTrades:
  "length (filter (\<lambda>t. outcome t = TP) ts) + length (filter (\<lambda>t. outcome t = SL) ts)
     \<le> length (filter (\<lambda>t. outcome t \<noteq> NO_TRADE) ts)"
  by (induction ts) auto

lemma stats_fields:
  "totalTrades (stats ts) = length (filter (\<lambda>t. outcome t \<noteq> NO_TRADE) ts)"
  "wins (stats ts) = length (filter (\<lambda>t. outcome t = TP) ts)"
  "losses (stats ts) = length (filter (\<lambda>t. outcome t = SL) ts)"
  "breakEvens (stats ts) = length (filter (\<lambda>t. outcome t = BE) ts)"
  "totalRREarned (stats ts) = foldl rrReducer 0 (filter (\<lambda>t. outcome t \<noteq> NO_TRADE) ts)"
  by (simp_all add: stats_def Let_def)

lemma stats_winRate:
  "winRate (stats ts) =
     (if wins (stats ts) + losses (stats ts) = 0 then 0
      else toFixed1 (Fin (real (wins (stats ts)))
                       / Fin (real (wins (stats ts) + losses (stats ts))) * Fin 100))"
proof (cases "wins (stats ts) + losses (stats ts) = 0")
  case True
  then show ?thesis by (simp add: stats_def Let_def)
next
  case False
  then have pos: "0 < wins (stats ts) + losses (stats ts)" by simp
  with wins_losses_le_totalTrades [of ts] have "0 < totalTrades (stats ts)"
    unfolding stats_fields by linarith
  with pos show ?thesis
    by (auto simp add: stats_def Let_def simp del: of_nat_add)
qed


















lemma winRate_23_57:
  "wins (stats wins23Losses57) = 23 \<and> losses (stats wins23Losses57) = 57
   \<and> winRate (stats wins23Losses57) = Fin (287 / 10)
   \<and> toFixed1 (Fin (23 / 80 * 100)) = Fin (288 / 10)"
proof -
  have w: "wins (stats wins23Losses57) = 23" and l: "losses (stats wins23Losses57) = 57"
    by (simp_all add: stats_fields wins23Losses57_def blankTrade_def filter_replicate)
  have "winRate (stats wins23Losses57) = toFixed1 (Fin 23 / Fin 80 * Fin 100)"
    by (simp add: stats_winRate w l)
  then have "winRate (stats wins23Losses57) = Fin (287 / 10)"
    by (simp add: twentythree_in_eighty twentythree_in_eighty_percent toFixed1_def)
  then show ?thesis using w l by (simp add: toFixed1_def)
qed










section \<open>Properties of the stored collection\<close>

text \<open>
  C9. \<^verbatim>\<open>deleteTrade(id)\<close> keeps the remaining records in their original relative order
  (the result is a subsequence of the collection), removes every record with that id,
  and keeps every other record as often as it occurred.
\<close>

theorem C9_deleteTrade_frame:
  "subseq (deleteTrade i trades) trades
   \<and> (\<forall>t. count (mset (deleteTrade i trades)) t
            = (if trade_id t = i then 0 else count (mset trades) t))"
  by (auto simp add: deleteTrade_def)

section \<open>Properties of the equity curve\<close>



























section \<open>Properties of adding a trade\<close>

lemma inOrder_compareNewestFirst:
  "inOrder eng compareNewestFirst a b = (date b \<le> date a)"
  by (cases eng) (auto simp add: inOrder_def compareNewestFirst_def)

text \<open>
  C10. After \<^verbatim>\<open>addTrade\<close> the collection holds the previous records and the new record
  with the id assigned to it, and it is ordered by date, newest first.
\<close>

theorem C10_addTrade_sorted_newest_first:
  "mset (addTrade eng newId tradeData prevTrades)
     = add_mset (tradeData\<lparr>trade_id := newId\<rparr>) (mset prevTrades)
   \<and> sorted_wrt (\<lambda>a b. date b \<le> date a) (addTrade eng newId tradeData prevTrades)"
proof -
  have "sorted_wrt (\<lambda>a b. date b \<le> date a)
          (js_sort eng compareNewestFirst (prevTrades @ [tradeData\<lparr>trade_id := newId\<rparr>]))"
    by (rule sorted_js_sort) (auto simp add: inOrder_compareNewestFirst)
  then show ?thesis by (simp add: addTrade_def mset_js_sort)
qed

section \<open>Properties of the range filter\<close>

lemma set_applyFilters_range:
  "set (applyFilters tz (filters\<lparr>filter_rangeSize := RangeBucket minv maxv\<rparr>) trades)
     = {t \<in> set (applyFilters tz (filters\<lparr>filter_rangeSize := RangeAll\<rparr>) trades).
          rangeSizeMatches minv maxv t}"
  by (auto simp add: applyFilters_def Let_def split: option.splits)

text \<open>
  C7. With a range bucket selected, the pipeline shows exactly those records of the
  unrestricted view whose \<^verbatim>\<open>rangeSize\<close> is set to some \<open>r\<close> with \<open>minv \<le> r\<close> and
  \<open>r < maxv\<close> (no upper bound when the bucket is open-ended). A record without a range
  size is never shown, and the upper bound is excluded.
\<close>

theorem C7_range_bucket_half_open:
  "set (filteredAndSortedTrades eng localeCompare tz
          (filters\<lparr>filter_rangeSize := RangeBucket minv maxv\<rparr>) key direction trades)
     = {t \<in> set (filteredAndSortedTrades eng localeCompare tz
                    (filters\<lparr>filter_rangeSize := RangeAll\<rparr>) key direction trades).
          \<exists>r. rangeSize t = Some r \<and> minv \<le> r
               \<and> (case maxv of None \<Rightarrow> True | Some m \<Rightarrow> r < m)}"
  by (auto simp add: filteredAndSortedTrades_def sortTrades_def set_js_sort
      set_applyFilters_range rangeSizeMatches_def split: option.splits)

lemma rangeTrades_unfiltered:
  "set (filteredAndSortedTrades AsksLessEq (\<lambda>a b. 0) 0
          (noFilters\<lparr>filter_rangeSize := RangeAll\<rparr>) K_date descending rangeTrades)
     = set rangeTrades"
  by (simp add: filteredAndSortedTrades_def sortTrades_def set_js_sort applyFilters_def
      noFilters_def)

lemma rangeTrades_in_bucket:
  "{t \<in> set rangeTrades. \<exists>r. rangeSize t = Some r \<and> 5 \<le> r \<and> r < 10}
     = {(blankTrade ''r7'' (dateOnly (isoDate 2024 6 3)) TP)\<lparr>rangeSize := Some 7\<rparr>}"
proof -
  have "filter (\<lambda>t. \<exists>r. rangeSize t = Some r \<and> 5 \<le> r \<and> r < 10) rangeTrades
          = [(blankTrade ''r7'' (dateOnly (isoDate 2024 6 3)) TP)\<lparr>rangeSize := Some 7\<rparr>]"
    by (simp add: rangeTrades_def blankTrade_def)
  then have "set (filter (\<lambda>t. \<exists>r. rangeSize t = Some r \<and> 5 \<le> r \<and> r < 10) rangeTrades)
          = {(blankTrade ''r7'' (dateOnly (isoDate 2024 6 3)) TP)\<lparr>rangeSize := Some 7\<rparr>}"
    by simp
  then show ?thesis by (simp only: set_filter)
qed

theorem C7_range_bucket_half_open_witness:
  "set (filteredAndSortedTrades AsksLessEq (\<lambda>a b. 0) 0
          (noFilters\<lparr>filter_rangeSize := RangeBucket 5 (Some 10)\<rparr>) K_date descending rangeTrades)
     = {(blankTrade ''r7'' (dateOnly (isoDate 2024 6 3)) TP)\<lparr>rangeSize := Some 7\<rparr>}"
  using C7_range_bucket_half_open [where eng = AsksLessEq and localeCompare = "\<lambda>a b. 0"
      and tz = 0 and filters = noFilters and minv = 5 and maxv = "Some 10" and key = K_date
      and direction = descending and trades = rangeTrades]
  unfolding rangeTrades_unfiltered
  by (simp add: rangeTrades_in_bucket)

section \<open>Properties of the grouping by day\<close>

text \<open>
  With the host in UTC the weekly, daily and day-of-week series use one rule: the UTC
  calendar day of the record, its weekday, and the Sunday on or before it.
\<close>

lemma performanceDayIndex_utc: "performanceDayIndex 0 t = WeekDay (date t)"
  by (simp add: performanceDayIndex_def getUTCDay_def utcDate_def UTC_def WeekDay_def Day_def msPerDay_def)

lemma weekKey_utc: "weekKey 0 t = dayKey t - WeekDay (date t)"
  by (simp add: weekKey_def dayKey_def isoDay_def setDateBack_def getDay_def LocalTime_def UTC_def Let_def Day_def msPerDay_def)

lemma Day_utcDate_west:
  assumes "- msPerDay < tz" "tz \<le> 0"
  shows "Day (utcDate tz t) = Day t"
proof -
  have "(Day t * msPerDay + (- tz)) div msPerDay = Day t"
    using assms by (simp add: msPerDay_def)
  then show ?thesis by (simp add: utcDate_def UTC_def Day_def[of "_ - _"])
qed

lemma Day_utcDate_east:
  assumes "0 < tz" "tz \<le> msPerDay"
  shows "Day (utcDate tz t) = Day t - 1"
proof -
  have "((Day t - 1) * msPerDay + (msPerDay - tz)) div msPerDay = Day t - 1"
    using assms by (simp add: msPerDay_def)
  moreover have "(Day t - 1) * msPerDay + (msPerDay - tz) = Day t * msPerDay - tz"
    by (simp add: algebra_simps)
  ultimately show ?thesis by (simp add: utcDate_def UTC_def Day_def[of "_ - _"])
qed

text \<open>
  West of Greenwich (and in UTC) the day-of-week index is the weekday of the record's
  UTC calendar day; east of Greenwich it is the weekday of the day before.
\<close>

lemma performanceDayIndex_west:
  assumes "- msPerDay < tz" and "tz \<le> 0"
  shows "performanceDayIndex tz t = WeekDay (date t)"
  using Day_utcDate_west [OF assms, of "date t"]
  by (simp add: performanceDayIndex_def getUTCDay_def WeekDay_def)

lemma performanceDayIndex_east:
  assumes "0 < tz" and "tz \<le> msPerDay"
  shows "performanceDayIndex tz t = (WeekDay (date t) + 6) mod 7"
proof -
  have "performanceDayIndex tz t = (Day (date t) - 1 + 4) mod 7"
    using Day_utcDate_east [OF assms, of "date t"]
    by (simp add: performanceDayIndex_def getUTCDay_def WeekDay_def)
  also have "\<dots> = (WeekDay (date t) + 6) mod 7"
    unfolding WeekDay_def by presburger
  finally show ?thesis .
qed

text \<open>
  C4 fails on the code. The record is dated Monday 2024-06-03, and the daily series files
  it under that day. In a zone two hours east of Greenwich the day-of-week breakdown
  counts it under index 0, Sunday. In a zone five hours west of Greenwich the weekly
  series files it under the week that starts on 2024-06-03 itself, which is not the
  Sunday before it. In neither zone do the three series use the same calendar day.
\<close>

theorem C4_day_rules_disagree:
  "dayKey mondayTrade = isoDate 2024 6 3
   \<and> WeekDay (dateOnly (dayKey mondayTrade)) = 1
   \<and> performanceDayIndex (2 * msPerHour) mondayTrade = 0
   \<and> weekKey (2 * msPerHour) mondayTrade = isoDate 2024 6 2
   \<and> performanceDayIndex (- 5 * msPerHour) mondayTrade = 1
   \<and> weekKey (- 5 * msPerHour) mondayTrade = isoDate 2024 6 3"
  by (simp add: mondayTrade_def blankTrade_def isoDate_june_2024 dayKey_def isoDay_def Day_def
      dateOnly_def
      msPerDay_def msPerHour_def WeekDay_def performanceDayIndex_def getUTCDay_def utcDate_def
      UTC_def weekKey_def setDateBack_def getDay_def LocalTime_def Let_def)

text \<open>The filter and the day-of-week breakdown use the same index.\<close>

lemma dayOfWeekMatches_performanceDayIndex:
  "dayOfWeekMatches tz k t = (performanceDayIndex tz t = k)"
  by (simp add: dayOfWeekMatches_def performanceDayIndex_def)

text \<open>
  C6 fails on the code. In a zone two hours east of Greenwich a record dated Tuesday
  2024-06-04 (weekday 2) is shown by the Monday filter (value 1) and hidden by the
  Tuesday filter (value 2), and a record dated Monday 2024-06-03 (weekday 1) is hidden
  by the Monday filter.
\<close>

theorem C6_weekday_filter_shifted:
  "WeekDay (date tuesdayTrade) = 2
   \<and> dayOfWeekMatches (2 * msPerHour) 1 tuesdayTrade
   \<and> \<not> dayOfWeekMatches (2 * msPerHour) 2 tuesdayTrade
   \<and> WeekDay (date mondayTrade) = 1
   \<and> \<not> dayOfWeekMatches (2 * msPerHour) 1 mondayTrade"
  by (simp add: tuesdayTrade_def mondayTrade_def blankTrade_def isoDate_june_2024 Day_def
      dateOnly_def msPerDay_def msPerHour_def WeekDay_def dayOfWeekMatches_def getUTCDay_def
      utcDate_def UTC_def)

section \<open>Properties of the stop-sweep notes analysis\<close>









section \<open>Properties of sorting the table\<close>

lemma fieldValue_sameKind:
  "fieldValue key a = Some x \<Longrightarrow> fieldValue key b = Some y \<Longrightarrow> sameKind x y"
  by (cases key) (auto simp add: fieldValue_def)

lemma comparator_flip:
  assumes anti: "\<And>x y. (c x y \<le> 0) = (\<not> c y x < 0)"
  shows "(0 \<le> c x y) = (c y x \<le> (0::real))"
  using anti [of y x] by (simp add: not_less)

lemma valueLe_total:
  assumes anti: "\<And>x y. (localeCompare x y \<le> 0) = (\<not> localeCompare y x < 0)"
  shows "sameKind x y \<Longrightarrow> valueLe localeCompare direction x y \<or> valueLe localeCompare direction y x"
proof (cases x; cases y)
  fix s1 s2
  assume xy: "x = JString s1" "y = JString s2"
  have flip: "(0 \<le> localeCompare s1 s2) = (localeCompare s2 s1 \<le> 0)"
    using anti by (rule comparator_flip)
  have "localeCompare s1 s2 \<le> 0 \<or> localeCompare s2 s1 \<le> 0"
    using flip by linarith
  moreover have "0 \<le> localeCompare s1 s2 \<or> 0 \<le> localeCompare s2 s1"
    using flip by linarith
  ultimately show "valueLe localeCompare direction x y \<or> valueLe localeCompare direction y x"
    using xy by (simp add: valueLe_def comparison_def)
qed (auto simp add: valueLe_def comparison_def)

lemma valueLe_trans:
  assumes anti: "\<And>x y. (localeCompare x y \<le> 0) = (\<not> localeCompare y x < 0)"
    and tr: "\<And>x y z. localeCompare x y \<le> 0 \<Longrightarrow> localeCompare y z \<le> 0 \<Longrightarrow> localeCompare x z \<le> 0"
  shows "sameKind x y \<Longrightarrow> sameKind y z \<Longrightarrow> valueLe localeCompare direction x y \<Longrightarrow>
         valueLe localeCompare direction y z \<Longrightarrow> valueLe localeCompare direction x z"
proof (cases x; cases y; cases z)
  fix s1 s2 s3
  assume xyz: "x = JString s1" "y = JString s2" "z = JString s3"
  assume le: "valueLe localeCompare direction x y" "valueLe localeCompare direction y z"
  show "valueLe localeCompare direction x z"
  proof (cases "direction = descending")
    case False
    with le xyz tr [of s1 s2 s3] show ?thesis by (simp add: valueLe_def comparison_def)
  next
    case True
    with le xyz have "localeCompare s3 s2 \<le> 0" "localeCompare s2 s1 \<le> 0"
      using anti [of s3 s2] anti [of s2 s1] by (auto simp add: valueLe_def comparison_def not_less)
    then have "localeCompare s3 s1 \<le> 0" by (rule tr)
    then show ?thesis using True xyz anti [of s3 s1] by (simp add: valueLe_def comparison_def not_less)
  qed
qed (auto simp add: valueLe_def comparison_def split: if_splits)


lemma nullsLast_total:
  assumes anti: "\<And>x y. (localeCompare x y \<le> 0) = (\<not> localeCompare y x < 0)"
  shows "nullsLast localeCompare key direction a b \<or> nullsLast localeCompare key direction b a"
proof (cases "fieldValue key a")
  case None
  then show ?thesis by (simp add: nullsLast_def)
next
  case a: (Some av)
  show ?thesis
  proof (cases "fieldValue key b")
    case None
    then show ?thesis by (simp add: nullsLast_def)
  next
    case b: (Some bv)
    have "sameKind av bv" using a b by (rule fieldValue_sameKind)
    then have "valueLe localeCompare direction av bv \<or> valueLe localeCompare direction bv av"
      using valueLe_total [of localeCompare av bv direction] anti by blast
    then show ?thesis using a b by (simp add: nullsLast_def)
  qed
qed

lemma nullsLast_trans:
  assumes anti: "\<And>x y. (localeCompare x y \<le> 0) = (\<not> localeCompare y x < 0)"
    and tr: "\<And>x y z. localeCompare x y \<le> 0 \<Longrightarrow> localeCompare y z \<le> 0 \<Longrightarrow> localeCompare x z \<le> 0"
    and ab: "nullsLast localeCompare key direction a b"
    and bc: "nullsLast localeCompare key direction b c"
  shows "nullsLast localeCompare key direction a c"
proof (cases "fieldValue key c")
  case None
  then show ?thesis by (simp add: nullsLast_def)
next
  case c: (Some cv)
  with bc obtain bv where b: "fieldValue key b = Some bv"
    and bcv: "valueLe localeCompare direction bv cv"
    by (auto simp add: nullsLast_def split: option.splits)
  with ab obtain av where a: "fieldValue key a = Some av"
    and abv: "valueLe localeCompare direction av bv"
    by (auto simp add: nullsLast_def split: option.splits)
  have "sameKind av bv" "sameKind bv cv"
    using a b c by (auto intro: fieldValue_sameKind)
  then have "valueLe localeCompare direction av cv"
    using valueLe_trans [of localeCompare av bv cv direction] anti tr abv bcv by blast
  then show ?thesis using a c by (simp add: nullsLast_def)
qed

lemma inOrder_AsksLessEq_sortCompare:
  "fieldValue key a \<noteq> None \<Longrightarrow>
   inOrder AsksLessEq (sortCompare localeCompare key direction) a b
     = nullsLast localeCompare key direction a b"
  by (auto simp add: inOrder_def sortCompare_def nullsLast_def valueLe_def split: option.splits)

lemma comparison_flip:
  assumes anti: "\<And>x y. (localeCompare x y \<le> 0) = (\<not> localeCompare y x < 0)"
  shows "sameKind x y \<Longrightarrow> (0 \<le> comparison localeCompare x y) = (comparison localeCompare y x \<le> 0)"
proof (cases x; cases y)
  fix s1 s2
  assume "x = JString s1" "y = JString s2"
  then show "(0 \<le> comparison localeCompare x y) = (comparison localeCompare y x \<le> 0)"
    using comparator_flip [of localeCompare s1 s2] anti by (simp add: comparison_def)
qed (auto simp add: comparison_def)

lemma inOrder_AsksLess_sortCompare:
  assumes anti: "\<And>x y. (localeCompare x y \<le> 0) = (\<not> localeCompare y x < 0)"
  shows "inOrder AsksLess (sortCompare localeCompare key direction) a b
           = nullsLast localeCompare key direction a b"
proof (cases "fieldValue key b")
  case None
  then show ?thesis by (simp add: inOrder_def sortCompare_def nullsLast_def)
next
  case b: (Some bv)
  show ?thesis
  proof (cases "fieldValue key a")
    case None
    with b show ?thesis by (simp add: inOrder_def sortCompare_def nullsLast_def)
  next
    case a: (Some av)
    have "sameKind bv av" using b a by (rule fieldValue_sameKind)
    then have "(0 \<le> comparison localeCompare bv av) = (comparison localeCompare av bv \<le> 0)"
      using comparison_flip [of localeCompare bv av] anti by blast
    moreover have "sameKind av bv" using a b by (rule fieldValue_sameKind)
    then have "(0 \<le> comparison localeCompare av bv) = (comparison localeCompare bv av \<le> 0)"
      using comparison_flip [of localeCompare av bv] anti by blast
    ultimately show ?thesis using a b
      by (simp add: inOrder_def sortCompare_def nullsLast_def valueLe_def not_less)
  qed
qed

text \<open>Where the comparator is consistent, sorting again changes nothing.\<close>

lemma sortTrades_idempotent_all_present:
  assumes anti: "\<And>x y. (localeCompare x y \<le> 0) = (\<not> localeCompare y x < 0)"
    and tr: "\<And>x y z. localeCompare x y \<le> 0 \<Longrightarrow> localeCompare y z \<le> 0 \<Longrightarrow> localeCompare x z \<le> 0"
    and present: "\<forall>t\<in>set trades. fieldValue key t \<noteq> None"
  shows "sortTrades eng localeCompare key direction (sortTrades eng localeCompare key direction trades)
           = sortTrades eng localeCompare key direction trades"
proof -
  let ?S = "{t. fieldValue key t \<noteq> None}"
  have io: "\<And>a b. a \<in> ?S \<Longrightarrow> b \<in> ?S \<Longrightarrow>
      inOrder eng (sortCompare localeCompare key direction) a b = nullsLast localeCompare key direction a b"
  proof (cases eng)
    case AsksLessEq
    fix a b assume "a \<in> ?S"
    then show "inOrder eng (sortCompare localeCompare key direction) a b = nullsLast localeCompare key direction a b"
      using AsksLessEq by (simp add: inOrder_AsksLessEq_sortCompare)
  next
    case AsksLess
    fix a b
    show "inOrder eng (sortCompare localeCompare key direction) a b = nullsLast localeCompare key direction a b"
      unfolding AsksLess using anti by (rule inOrder_AsksLess_sortCompare)
  qed
  have sub: "set trades \<subseteq> ?S" using present by blast
  show ?thesis
    unfolding sortTrades_def
    by (rule js_sort_idempotent_on [where le = "nullsLast localeCompare key direction" and S = ?S])
      (use nullsLast_total [of localeCompare] nullsLast_trans [of localeCompare] anti tr io sub in blast)+
qed

lemma sortTrades_idempotent_AsksLess:
  assumes anti: "\<And>x y. (localeCompare x y \<le> 0) = (\<not> localeCompare y x < 0)"
    and tr: "\<And>x y z. localeCompare x y \<le> 0 \<Longrightarrow> localeCompare y z \<le> 0 \<Longrightarrow> localeCompare x z \<le> 0"
  shows "sortTrades AsksLess localeCompare key direction
           (sortTrades AsksLess localeCompare key direction trades)
           = sortTrades AsksLess localeCompare key direction trades"
proof -
  have io: "\<And>a b. a \<in> UNIV \<Longrightarrow> b \<in> UNIV \<Longrightarrow>
      inOrder AsksLess (sortCompare localeCompare key direction) a b = nullsLast localeCompare key direction a b"
    using anti by (rule inOrder_AsksLess_sortCompare)
  show ?thesis
    unfolding sortTrades_def
    by (rule js_sort_idempotent_on [where le = "nullsLast localeCompare key direction" and S = UNIV])
      (use nullsLast_total [of localeCompare] nullsLast_trans [of localeCompare] anti tr io in blast)+
qed

text \<open>
  C8 fails on the code. Two records have no \<^verbatim>\<open>rr\<close> value. The comparator answers \<open>1\<close>
  for them in either order, so it is not a consistent comparator, and an engine that
  moves an item past every earlier item \<open>prev\<close> with \<^verbatim>\<open>comparefn(prev, item) > 0\<close>
  swaps them each time: sorting the sorted list gives back the original order, not the
  sorted one.
\<close>

theorem C8_sort_not_idempotent:
  "sortCompare (\<lambda>a b. 0) K_rr ascending noRr1 noRr2 = 1
   \<and> sortCompare (\<lambda>a b. 0) K_rr ascending noRr2 noRr1 = 1
   \<and> sortTrades AsksLessEq (\<lambda>a b. 0) K_rr ascending [noRr1, noRr2] = [noRr2, noRr1]
   \<and> sortTrades AsksLessEq (\<lambda>a b. 0) K_rr ascending
        (sortTrades AsksLessEq (\<lambda>a b. 0) K_rr ascending [noRr1, noRr2]) = [noRr1, noRr2]
   \<and> noRr1 \<noteq> noRr2"
  by (simp add: sortTrades_def js_sort_def inOrder_def sortCompare_def fieldValue_def
      noRr1_def noRr2_def blankTrade_def ascii_def)

end
